theory Spec2Isabelle
  imports
    Main
    "HOL-Library.AList"
    "HOL-Library.Sublist"
    "HOL-Library.Char_ord"
    "HOL-Library.List_Lexorder"
begin

section \<open>Template documents (backend/app/template\_models.py)\<close>

text \<open>
  A \<open>datetime\<close> is an instant, counted in the unit the store keeps. The handlers read
  the clock with \<open>datetime.utcnow()\<close>; each reading is an argument of the handler that
  makes it, so nothing is assumed about how successive readings compare.
\<close>

type_synonym datetime = int

record TemplateSectionModel =
  title :: string
  instruction :: string
  format :: string
  item_format :: "string option"
  example_item_format :: "string option"

record TemplateModel =
  template_id :: string
  client_id :: string
  name :: string
  description :: string
  sections :: "TemplateSectionModel list"
  global_instruction :: "string option"
  clinical_safety_rules :: "string list option"
  version :: int
  is_active :: bool
  created_at :: datetime
  updated_at :: datetime

record TemplateSyncResponse =
  templates :: "TemplateModel list"
  sync_timestamp :: datetime

section \<open>The templates collection\<close>

text \<open>
  A stored document is the dictionary the handlers write: the eleven fields of
  \<open>model_dump()\<close> and the store-assigned \<open>_id\<close>. \<open>doc["template_id"]\<close> is
  \<open>template_id doc\<close>.
\<close>

record document = TemplateModel +
  oid :: nat

text \<open>The three indexes that \<open>_ensure_indexes\<close> asks for.\<close>

datatype index_spec =
  Ix_template_id_client_id_unique
  | Ix_client_id
  | Ix_updated_at

text \<open>
  The collection: its documents in natural (insertion) order, the indexes that exist,
  the counter behind \<open>_id\<close>, and whether the server can be reached. When \<open>outage\<close>
  is \<open>Some m\<close>, every operation on the collection raises an exception whose text is
  \<open>m\<close> (a server selection timeout, a refused connection).
\<close>

record collection =
  docs :: "document list"
  indexes :: "index_spec list"
  next_oid :: nat
  outage :: "string option"

text \<open>What the driver raises; \<open>message\<close> is \<open>str(e)\<close>.\<close>

datatype pymongo_error = PyMongoError (message: string)

text \<open>The filters the handlers pass to \<open>find\<close>, \<open>find_one\<close> and \<open>find_one_and_update\<close>:
  a field that is \<open>None\<close> is absent from the filter.\<close>

record query =
  q_template_id :: "string option"
  q_client_id :: "string option"
  q_is_active :: "bool option"

definition matches :: "query \<Rightarrow> document \<Rightarrow> bool" where
  "matches q d =
     ((case q_template_id q of None \<Rightarrow> True | Some t \<Rightarrow> template_id d = t) \<and>
      (case q_client_id q of None \<Rightarrow> True | Some c \<Rightarrow> client_id d = c) \<and>
      (case q_is_active q of None \<Rightarrow> True | Some a \<Rightarrow> is_active d = a))"

text \<open>The key of the compound unique index.\<close>

definition identity :: "'a TemplateModel_scheme \<Rightarrow> string \<times> string" where
  "identity d = (template_id d, client_id d)"

definition quote :: string where
  "quote = [CHR 0x22]"

definition apostrophe :: string where
  "apostrophe = [CHR 0x27]"

text \<open>The text of the server's error 11000, the violation of a unique index.\<close>

definition E11000 :: "string \<times> string \<Rightarrow> string" where
  "E11000 k =
     ''E11000 duplicate key error collection: iqcapture.templates index: template_id_1_client_id_1 dup key: { template_id: ''
       @ quote @ fst k @ quote @ '', client_id: '' @ quote @ snd k @ quote @ '' }''"

fun first_duplicate :: "'a list \<Rightarrow> 'a option" where
  "first_duplicate [] = None"
| "first_duplicate (x # xs) = (if x \<in> set xs then Some x else first_duplicate xs)"

definition find_docs :: "query \<Rightarrow> collection \<Rightarrow> pymongo_error + document list" where
  "find_docs q c =
     (case outage c of
        Some m \<Rightarrow> Inl (PyMongoError m)
      | None \<Rightarrow> Inr (filter (matches q) (docs c)))"

definition find_one :: "query \<Rightarrow> collection \<Rightarrow> pymongo_error + document option" where
  "find_one q c =
     (case outage c of
        Some m \<Rightarrow> Inl (PyMongoError m)
      | None \<Rightarrow> Inr (List.find (matches q) (docs c)))"

text \<open>
  \<open>create_index\<close> is idempotent. Building the unique index over documents that already
  share a key fails with error 11000. A failed operation leaves the collection as it was.
\<close>

definition create_index :: "index_spec \<Rightarrow> collection \<Rightarrow> pymongo_error + collection" where
  "create_index ix c =
     (case outage c of
        Some m \<Rightarrow> Inl (PyMongoError m)
      | None \<Rightarrow>
          if ix \<in> set (indexes c) then Inr c
          else if ix = Ix_template_id_client_id_unique then
            (case first_duplicate (map identity (docs c)) of
               Some k \<Rightarrow> Inl (PyMongoError (E11000 k))
             | None \<Rightarrow> Inr (c\<lparr>indexes := indexes c @ [ix]\<rparr>))
          else Inr (c\<lparr>indexes := indexes c @ [ix]\<rparr>))"

text \<open>\<open>insert_one\<close> appends the document under a fresh \<open>_id\<close>, unless the unique index
  exists and already holds the key.\<close>

definition insert_one :: "TemplateModel \<Rightarrow> collection \<Rightarrow> pymongo_error + collection" where
  "insert_one doc c =
     (case outage c of
        Some m \<Rightarrow> Inl (PyMongoError m)
      | None \<Rightarrow>
          if Ix_template_id_client_id_unique \<in> set (indexes c)
             \<and> identity doc \<in> set (map identity (docs c))
          then Inl (PyMongoError (E11000 (identity doc)))
          else Inr (c\<lparr>docs := docs c @ [TemplateModel.extend doc \<lparr>oid = next_oid c\<rparr>],
                       next_oid := Suc (next_oid c)\<rparr>))"

text \<open>
  The update document \<open>{"$set": update_data}\<close> of \<open>update_template\<close>: \<open>update_data\<close> is
  the dump of the template without its \<open>created_at\<close> key, so every field but
  \<open>created_at\<close> (and \<open>_id\<close>) is assigned.
\<close>

definition set_update_data :: "TemplateModel \<Rightarrow> document \<Rightarrow> document" where
  "set_update_data u d =
     d\<lparr>template_id := template_id u,
       client_id := client_id u,
       name := name u,
       description := description u,
       sections := sections u,
       global_instruction := global_instruction u,
       clinical_safety_rules := clinical_safety_rules u,
       version := version u,
       is_active := is_active u,
       updated_at := updated_at u\<rparr>"

fun update_first :: "('a \<Rightarrow> bool) \<Rightarrow> ('a \<Rightarrow> 'a) \<Rightarrow> 'a list \<Rightarrow> 'a list" where
  "update_first P f [] = []"
| "update_first P f (x # xs) = (if P x then f x # xs else x # update_first P f xs)"

text \<open>
  \<open>find_one_and_update\<close> with \<open>return_document=True\<close>: the first matching document
  is updated and returned as updated; no match returns \<open>None\<close> and writes nothing. An update
  that would give the document the key of another one is refused by the unique index
  with error 11000.
\<close>

definition find_one_and_update ::
  "query \<Rightarrow> TemplateModel \<Rightarrow> collection \<Rightarrow> pymongo_error + (document option \<times> collection)" where
  "find_one_and_update q u c =
     (case outage c of
        Some m \<Rightarrow> Inl (PyMongoError m)
      | None \<Rightarrow>
          (case List.find (matches q) (docs c) of
             None \<Rightarrow> Inr (None, c)
           | Some d \<Rightarrow>
               if Ix_template_id_client_id_unique \<in> set (indexes c)
                  \<and> identity u \<in> set (map identity (remove1 d (docs c)))
               then Inl (PyMongoError (E11000 (identity u)))
               else Inr (Some (set_update_data u d),
                         c\<lparr>docs := update_first (matches q) (set_update_data u) (docs c)\<rparr>)))"

section \<open>The router (backend/app/template\_routes.py)\<close>

datatype http_exception = HTTPException (status_code: int) (detail: string)

text \<open>What a \<open>try\<close> block of a handler can raise.\<close>

datatype raised = Http http_exception | Mongo pymongo_error

text \<open>\<open>_doc_to_model\<close>: the \<open>_id\<close> key is dropped, the other keys build the model.\<close>

definition doc_to_model :: "document \<Rightarrow> TemplateModel" where
  "doc_to_model doc = TemplateModel.truncate doc"

text \<open>\<open>_ensure_indexes\<close>: an index created before a later call raises stays created.\<close>

definition ensure_indexes :: "collection \<Rightarrow> (pymongo_error + unit) \<times> collection" where
  "ensure_indexes c =
     (case create_index Ix_template_id_client_id_unique c of
        Inl e \<Rightarrow> (Inl e, c)
      | Inr c1 \<Rightarrow>
          (case create_index Ix_client_id c1 of
             Inl e \<Rightarrow> (Inl e, c1)
           | Inr c2 \<Rightarrow>
               (case create_index Ix_updated_at c2 of
                  Inl e \<Rightarrow> (Inl e, c2)
                | Inr c3 \<Rightarrow> (Inr (), c3))))"

subsection \<open>List / Get\<close>

text \<open>The handlers' parameters \<open>template_id\<close> and \<open>client_id\<close> are written \<open>tid\<close> and
  \<open>cid\<close>, the field names being taken.\<close>

text \<open>
  The dictionary \<open>defaults\<close> keeps its keys in insertion order: assigning to a key it
  holds replaces the value in place, assigning to a new key appends.
\<close>

definition setitem :: "(string \<times> document) list \<Rightarrow> document \<Rightarrow> (string \<times> document) list" where
  "setitem defaults doc = AList.update (template_id doc) doc defaults"

definition default_query :: query where
  "default_query = \<lparr>q_template_id = None, q_client_id = Some ''default'', q_is_active = Some True\<rparr>"

definition client_query :: "string \<Rightarrow> query" where
  "client_query cid = \<lparr>q_template_id = None, q_client_id = Some cid, q_is_active = Some True\<rparr>"

definition resolved :: "(string \<times> document) list \<Rightarrow> TemplateModel list" where
  "resolved defaults = sort_key name (map doc_to_model (map snd defaults))"

definition list_templates_try ::
  "datetime \<Rightarrow> string \<Rightarrow> collection \<Rightarrow> pymongo_error + TemplateSyncResponse" where
  "list_templates_try now cid c =
     (case find_docs default_query c of
        Inl e \<Rightarrow> Inl e
      | Inr default_cursor \<Rightarrow>
          (let defaults = foldl setitem [] default_cursor in
           if cid \<noteq> ''default'' then
             (case find_docs (client_query cid) c of
                Inl e \<Rightarrow> Inl e
              | Inr client_cursor \<Rightarrow>
                  Inr \<lparr>templates = resolved (foldl setitem defaults client_cursor),
                       sync_timestamp = now\<rparr>)
           else Inr \<lparr>templates = resolved defaults, sync_timestamp = now\<rparr>))"

definition unavailable :: "pymongo_error \<Rightarrow> http_exception" where
  "unavailable e = HTTPException 503 (''Template service unavailable: '' @ message e)"

definition list_templates ::
  "datetime \<Rightarrow> string \<Rightarrow> collection \<Rightarrow> http_exception + TemplateSyncResponse" where
  "list_templates now cid c =
     (case list_templates_try now cid c of
        Inl e \<Rightarrow> Inl (unavailable e)
      | Inr response \<Rightarrow> Inr response)"

definition point_query :: "string \<Rightarrow> string \<Rightarrow> query" where
  "point_query tid cid =
     \<lparr>q_template_id = Some tid, q_client_id = Some cid, q_is_active = Some True\<rparr>"

definition not_found :: "string \<Rightarrow> http_exception" where
  "not_found tid =
     HTTPException 404 (''Template '' @ apostrophe @ tid @ apostrophe @ '' not found'')"

definition get_template_default :: "string \<Rightarrow> collection \<Rightarrow> raised + TemplateModel" where
  "get_template_default tid c =
     (case find_one (point_query tid ''default'') c of
        Inl e \<Rightarrow> Inl (Mongo e)
      | Inr (Some doc) \<Rightarrow> Inr (doc_to_model doc)
      | Inr None \<Rightarrow> Inl (Http (not_found tid)))"

definition get_template_try :: "string \<Rightarrow> string \<Rightarrow> collection \<Rightarrow> raised + TemplateModel" where
  "get_template_try tid cid c =
     (if cid \<noteq> ''default'' then
        (case find_one (point_query tid cid) c of
           Inl e \<Rightarrow> Inl (Mongo e)
         | Inr (Some doc) \<Rightarrow> Inr (doc_to_model doc)
         | Inr None \<Rightarrow> get_template_default tid c)
      else get_template_default tid c)"

text \<open>\<open>except HTTPException: raise\<close>, then \<open>except Exception\<close>.\<close>

definition reraise :: "raised \<Rightarrow> http_exception" where
  "reraise r = (case r of Http h \<Rightarrow> h | Mongo e \<Rightarrow> unavailable e)"

definition get_template :: "string \<Rightarrow> string \<Rightarrow> collection \<Rightarrow> http_exception + TemplateModel" where
  "get_template tid cid c =
     (case get_template_try tid cid c of
        Inl r \<Rightarrow> Inl (reraise r)
      | Inr t \<Rightarrow> Inr t)"

subsection \<open>Create / Update\<close>

text \<open>
  \<open>create_template\<close> reads the clock twice (\<open>now1\<close> for \<open>created_at\<close>, \<open>now2\<close> for
  \<open>updated_at\<close>), stamps the dump \<open>doc\<close>, inserts it, and returns \<open>template\<close>.
  A handler returns its response together with the collection it leaves.
\<close>

definition create_template_try ::
  "datetime \<Rightarrow> datetime \<Rightarrow> TemplateModel \<Rightarrow> collection
     \<Rightarrow> (pymongo_error + TemplateModel) \<times> collection" where
  "create_template_try now1 now2 template c =
     (case ensure_indexes c of
        (Inl e, c1) \<Rightarrow> (Inl e, c1)
      | (Inr _, c1) \<Rightarrow>
          (let doc = template\<lparr>created_at := now1, updated_at := now2\<rparr> in
           case insert_one doc c1 of
             Inl e \<Rightarrow> (Inl e, c1)
           | Inr c2 \<Rightarrow> (Inr template, c2)))"

text \<open>
  \<open>str.lower\<close>, on texts as byte strings: the letters A to Z are folded, every other
  byte is left as it is. For the test below, whose needle is ASCII, this agrees with
  Python on every text but one that holds the Kelvin sign (U+212A), the one character
  outside ASCII whose lower case is an ASCII letter of the needle.
\<close>

definition lower_char :: "char \<Rightarrow> char" where
  "lower_char ch =
     (case map_of (zip ''ABCDEFGHIJKLMNOPQRSTUVWXYZ'' ''abcdefghijklmnopqrstuvwxyz'') ch of
        Some l \<Rightarrow> l
      | None \<Rightarrow> ch)"

definition lower :: "string \<Rightarrow> string" where
  "lower s = map lower_char s"

definition already_exists :: "TemplateModel \<Rightarrow> http_exception" where
  "already_exists template =
     HTTPException 409
       (''Template '' @ apostrophe @ template_id template @ apostrophe
          @ '' already exists for client '' @ apostrophe @ client_id template @ apostrophe)"

definition create_template_except :: "TemplateModel \<Rightarrow> pymongo_error \<Rightarrow> http_exception" where
  "create_template_except template e =
     (if sublist ''duplicate key'' (lower (message e)) then already_exists template
      else unavailable e)"

definition create_template ::
  "datetime \<Rightarrow> datetime \<Rightarrow> TemplateModel \<Rightarrow> collection
     \<Rightarrow> (http_exception + TemplateModel) \<times> collection" where
  "create_template now1 now2 template c =
     (case create_template_try now1 now2 template c of
        (Inl e, c') \<Rightarrow> (Inl (create_template_except template e), c')
      | (Inr t, c') \<Rightarrow> (Inr t, c'))"

definition update_query :: "string \<Rightarrow> TemplateModel \<Rightarrow> query" where
  "update_query tid template =
     \<lparr>q_template_id = Some tid, q_client_id = Some (client_id template), q_is_active = None\<rparr>"

definition not_found_for_client :: "string \<Rightarrow> TemplateModel \<Rightarrow> http_exception" where
  "not_found_for_client tid template =
     HTTPException 404
       (''Template '' @ apostrophe @ tid @ apostrophe
          @ '' not found for client '' @ apostrophe @ client_id template @ apostrophe)"

definition update_template_try ::
  "string \<Rightarrow> datetime \<Rightarrow> TemplateModel \<Rightarrow> collection \<Rightarrow> (raised + TemplateModel) \<times> collection" where
  "update_template_try tid now template c =
     (let update_data = template\<lparr>updated_at := now\<rparr> in
      case find_one_and_update (update_query tid template) update_data c of
        Inl e \<Rightarrow> (Inl (Mongo e), c)
      | Inr (None, c') \<Rightarrow> (Inl (Http (not_found_for_client tid template)), c')
      | Inr (Some result, c') \<Rightarrow> (Inr (doc_to_model result), c'))"

definition update_template ::
  "string \<Rightarrow> datetime \<Rightarrow> TemplateModel \<Rightarrow> collection
     \<Rightarrow> (http_exception + TemplateModel) \<times> collection" where
  "update_template tid now template c =
     (case update_template_try tid now template c of
        (Inl r, c') \<Rightarrow> (Inl (reraise r), c')
      | (Inr t, c') \<Rightarrow> (Inr t, c'))"

section \<open>The properties in the words of the specification\<close>

text \<open>
  ``Contains the substring, case-insensitive'': some position of the text starts with
  the needle, letters compared without regard to case.
\<close>

fun starts_with_ignoring_case :: "string \<Rightarrow> string \<Rightarrow> bool" where
  "starts_with_ignoring_case [] s = True"
| "starts_with_ignoring_case (a # as) [] = False"
| "starts_with_ignoring_case (a # as) (b # bs) =
     (lower_char a = lower_char b \<and> starts_with_ignoring_case as bs)"

fun contains_ignoring_case :: "string \<Rightarrow> string \<Rightarrow> bool" where
  "contains_ignoring_case needle [] = (needle = [])"
| "contains_ignoring_case needle (b # bs) =
     (starts_with_ignoring_case needle (b # bs) \<or> contains_ignoring_case needle bs)"

text \<open>
  The list resolution of the specification for the default client, in two readings:
  step 1 and step 3 alone (``exactly the default layer''), and all three steps with the
  merge of step 2 performed for every client, \<open>default\<close> included.
\<close>

definition list_templates_defaults_only ::
  "datetime \<Rightarrow> collection \<Rightarrow> http_exception + TemplateSyncResponse" where
  "list_templates_defaults_only now c =
     (case find_docs default_query c of
        Inl e \<Rightarrow> Inl (unavailable e)
      | Inr default_cursor \<Rightarrow>
          Inr \<lparr>templates = resolved (foldl setitem [] default_cursor), sync_timestamp = now\<rparr>)"

definition list_templates_merging ::
  "datetime \<Rightarrow> string \<Rightarrow> collection \<Rightarrow> http_exception + TemplateSyncResponse" where
  "list_templates_merging now cid c =
     (case find_docs default_query c of
        Inl e \<Rightarrow> Inl (unavailable e)
      | Inr default_cursor \<Rightarrow>
          (case find_docs (client_query cid) c of
             Inl e \<Rightarrow> Inl (unavailable e)
           | Inr client_cursor \<Rightarrow>
               Inr \<lparr>templates = resolved (foldl setitem (foldl setitem [] default_cursor) client_cursor),
                    sync_timestamp = now\<rparr>))"

text \<open>A dictionary whose every value carries its key as \<open>template_id\<close>.\<close>

definition keyed :: "(string \<times> document) list \<Rightarrow> bool" where
  "keyed m = (\<forall>(k, d)\<in>set m. template_id d = k)"

section \<open>Example documents\<close>

text \<open>
  The scenario of the specification: a default template \<open>A1\<close> named SOAP, an override
  of it for the client \<open>clinic-7\<close>, and a second default.
\<close>

definition subjective :: TemplateSectionModel where
  "subjective =
     \<lparr>title = ''Subjective'', instruction = ''What the patient reports'', format = ''paragraph'',
      item_format = None, example_item_format = None\<rparr>"

definition soap :: TemplateModel where
  "soap =
     \<lparr>template_id = ''A1'', client_id = ''default'', name = ''SOAP'',
      description = ''SOAP note'', sections = [subjective], global_instruction = None,
      clinical_safety_rules = None, version = 1, is_active = True,
      created_at = 100, updated_at = 100\<rparr>"

definition soap_clinic7 :: TemplateModel where
  "soap_clinic7 = soap\<lparr>client_id := ''clinic-7'', name := ''Clinic SOAP'', version := 2,
      created_at := 300, updated_at := 300\<rparr>"

definition brief :: TemplateModel where
  "brief = soap\<lparr>template_id := ''B2'', name := ''Brief'', description := ''Short note'',
      created_at := 200, updated_at := 200\<rparr>"

definition stored :: "nat \<Rightarrow> TemplateModel \<Rightarrow> document" where
  "stored n t = TemplateModel.extend t \<lparr>oid = n\<rparr>"

definition all_indexes :: "index_spec list" where
  "all_indexes = [Ix_template_id_client_id_unique, Ix_client_id, Ix_updated_at]"

definition fresh :: collection where
  "fresh = \<lparr>docs = [], indexes = [], next_oid = 0, outage = None\<rparr>"

definition clinic_store :: collection where
  "clinic_store =
     \<lparr>docs = [stored 0 soap, stored 1 brief, stored 2 soap_clinic7],
      indexes = all_indexes, next_oid = 3, outage = None\<rparr>"

definition clinic_store_off :: collection where
  "clinic_store_off =
     \<lparr>docs = [stored 0 soap, stored 1 brief, stored 2 (soap_clinic7\<lparr>is_active := False\<rparr>)],
      indexes = all_indexes, next_oid = 3, outage = None\<rparr>"

definition retired_store :: collection where
  "retired_store =
     \<lparr>docs = [stored 0 (soap\<lparr>is_active := False\<rparr>), stored 1 brief],
      indexes = all_indexes, next_oid = 2, outage = None\<rparr>"

definition soap_v2 :: TemplateModel where
  "soap_v2 = soap\<lparr>name := ''SOAP v2'', version := 2, created_at := 450, updated_at := 450\<rparr>"

text \<open>A collection whose server refuses the connection.\<close>

definition unreachable :: collection where
  "unreachable = fresh\<lparr>outage := Some ''localhost:27017: [Errno 111] Connection refused''\<rparr>"

lemmas example_defs =
  clinic_store_def clinic_store_off_def retired_store_def fresh_def all_indexes_def
  stored_def TemplateModel.extend_def soap_def brief_def soap_clinic7_def subjective_def

lemmas update_template_eval =
  update_template_def update_template_try_def find_one_and_update_def Let_def matches_def
  update_query_def set_update_data_def doc_to_model_def TemplateModel.truncate_def identity_def
  reraise_def unavailable_def

section \<open>Documents and queries\<close>

lemma doc_to_model_stored: "doc_to_model (stored n t) = t"
  by (simp add: doc_to_model_def stored_def TemplateModel.truncate_def TemplateModel.extend_def)

lemma doc_to_model_fields:
  "template_id (doc_to_model d) = template_id d"
  "client_id (doc_to_model d) = client_id d"
  "name (doc_to_model d) = name d"
  "is_active (doc_to_model d) = is_active d"
  "created_at (doc_to_model d) = created_at d"
  "updated_at (doc_to_model d) = updated_at d"
  by (simp_all add: doc_to_model_def TemplateModel.truncate_def)

lemma matches_point_query:
  "matches (point_query tid cid) d \<longleftrightarrow> template_id d = tid \<and> client_id d = cid \<and> is_active d"
  by (auto simp add: matches_def point_query_def)

text \<open>Under the unique index a key names one document.\<close>

lemma identity_unique:
  assumes "distinct (map identity xs)" "x \<in> set xs" "y \<in> set xs" "identity x = identity y"
  shows "x = y"
  using assms by (meson distinct_map inj_on_def)

lemma find_active_unique:
  assumes "distinct (map identity ds)" "d \<in> set ds"
    "template_id d = tid" "client_id d = cid" "is_active d"
  shows "List.find (matches (point_query tid cid)) ds = Some d"
proof (cases "List.find (matches (point_query tid cid)) ds")
  case None
  with assms show ?thesis by (auto simp add: find_None_iff matches_point_query)
next
  case (Some x)
  then have "x \<in> set ds" "matches (point_query tid cid) x"
    by (auto simp add: find_Some_iff)
  then have "identity x = identity d"
    using assms by (simp add: matches_point_query identity_def)
  with assms \<open>x \<in> set ds\<close> Some show ?thesis by (auto dest: identity_unique)
qed

lemma find_active_none:
  assumes "\<forall>d\<in>set ds. template_id d = tid \<and> client_id d = cid \<longrightarrow> \<not> is_active d"
  shows "List.find (matches (point_query tid cid)) ds = None"
  using assms by (auto simp add: find_None_iff matches_point_query)

section \<open>Point resolution\<close>

text \<open>
  Claim C1. On a reachable collection that keeps \<open>(template_id, client_id)\<close> unique, and
  for a client other than \<open>default\<close>: an active override document for
  \<open>(tid, cid)\<close> is what \<open>get_template\<close> returns, and it is not a default; when every
  override for \<open>(tid, cid)\<close> is absent or inactive, an active default document
  \<open>(tid, default)\<close> is what \<open>get_template\<close> returns.
\<close>

theorem get_template_resolution:
  assumes "outage c = None" and "distinct (map identity (docs c))" and "cid \<noteq> ''default''"
  shows "(\<forall>d\<in>set (docs c). template_id d = tid \<and> client_id d = cid \<and> is_active d
            \<longrightarrow> get_template tid cid c = Inr (doc_to_model d)
                \<and> client_id (doc_to_model d) \<noteq> ''default'')
       \<and> ((\<forall>d\<in>set (docs c). template_id d = tid \<and> client_id d = cid \<longrightarrow> \<not> is_active d)
            \<longrightarrow> (\<forall>d\<in>set (docs c). template_id d = tid \<and> client_id d = ''default'' \<and> is_active d
                   \<longrightarrow> get_template tid cid c = Inr (doc_to_model d)))"
proof (intro conjI ballI impI)
  fix d assume "d \<in> set (docs c)" "template_id d = tid \<and> client_id d = cid \<and> is_active d"
  then have "List.find (matches (point_query tid cid)) (docs c) = Some d"
    using assms(2) by (simp add: find_active_unique)
  then show "get_template tid cid c = Inr (doc_to_model d)"
    using assms(1,3) by (simp add: get_template_def get_template_try_def find_one_def)
  show "client_id (doc_to_model d) \<noteq> ''default''"
    using \<open>template_id d = tid \<and> client_id d = cid \<and> is_active d\<close> assms(3)
    by (simp add: doc_to_model_fields)
next
  fix d
  assume none: "\<forall>d\<in>set (docs c). template_id d = tid \<and> client_id d = cid \<longrightarrow> \<not> is_active d"
    and d: "d \<in> set (docs c)" "template_id d = tid \<and> client_id d = ''default'' \<and> is_active d"
  have "List.find (matches (point_query tid cid)) (docs c) = None"
    using none by (rule find_active_none)
  moreover have "List.find (matches (point_query tid ''default'')) (docs c) = Some d"
    using assms(2) d by (simp add: find_active_unique)
  ultimately show "get_template tid cid c = Inr (doc_to_model d)"
    using assms(1,3)
    by (simp add: get_template_def get_template_try_def get_template_default_def find_one_def)
qed

text \<open>The scenario of the specification: the active override wins, the inactive one
  falls through to the default.\<close>

theorem get_template_resolution_witness:
  "get_template ''A1'' ''clinic-7'' clinic_store = Inr soap_clinic7
   \<and> get_template ''A1'' ''clinic-7'' clinic_store_off = Inr soap"
proof -
  have a: "outage clinic_store = None" "outage clinic_store_off = None"
    by (simp_all add: clinic_store_def clinic_store_off_def)
  have b: "distinct (map identity (docs clinic_store))"
      "distinct (map identity (docs clinic_store_off))"
    by (simp_all add: identity_def example_defs)
  have n: "''clinic-7'' \<noteq> ''default''" by simp
  show ?thesis
    using get_template_resolution [OF a(1) b(1) n, of "''A1''"]
      get_template_resolution [OF a(2) b(2) n, of "''A1''"]
    by (simp add: clinic_store_def clinic_store_off_def doc_to_model_stored)
      (simp add: example_defs)
qed

text \<open>
  Claim C3. On a reachable collection, when no active document \<open>(tid, default)\<close> and no
  active document \<open>(tid, cid)\<close> is stored (inactive ones may be), \<open>get_template\<close>
  fails with status 404 and a detail that names \<open>tid\<close>.
\<close>

theorem get_template_absent:
  assumes "outage c = None"
    and "\<forall>d\<in>set (docs c). template_id d = tid \<and> client_id d = ''default'' \<longrightarrow> \<not> is_active d"
    and "\<forall>d\<in>set (docs c). template_id d = tid \<and> client_id d = cid \<longrightarrow> \<not> is_active d"
  shows "get_template tid cid c =
           Inl (HTTPException 404 (''Template '' @ apostrophe @ tid @ apostrophe @ '' not found''))"
  using assms(1) find_active_none [OF assms(2)] find_active_none [OF assms(3)]
  by (simp add: get_template_def get_template_try_def get_template_default_def find_one_def
      reraise_def not_found_def)

text \<open>Only an inactive default \<open>A1\<close> is stored: the client gets 404.\<close>

theorem get_template_absent_witness:
  "get_template ''A1'' ''clinic-7'' retired_store =
     Inl (HTTPException 404 (''Template '' @ apostrophe @ ''A1'' @ apostrophe @ '' not found''))"
proof -
  have a: "outage retired_store = None"
    by (simp add: retired_store_def)
  have b: "\<forall>d\<in>set (docs retired_store).
             template_id d = ''A1'' \<and> client_id d = ''default'' \<longrightarrow> \<not> is_active d"
    by (simp add: example_defs)
  have c: "\<forall>d\<in>set (docs retired_store).
             template_id d = ''A1'' \<and> client_id d = ''clinic-7'' \<longrightarrow> \<not> is_active d"
    by (simp add: example_defs)
  show ?thesis
    by (rule get_template_absent [OF a b c])
qed

section \<open>Insert\<close>

lemma first_duplicate_None: "first_duplicate xs = None \<longleftrightarrow> distinct xs"
  by (induction xs) auto

lemma create_index_ok:
  assumes "outage c = None"
    and "ix = Ix_template_id_client_id_unique \<longrightarrow> distinct (map identity (docs c))"
  shows "\<exists>ixs. create_index ix c = Inr (c\<lparr>indexes := ixs\<rparr>) \<and> ix \<in> set ixs
           \<and> set (indexes c) \<subseteq> set ixs"
proof (cases "ix \<in> set (indexes c)")
  case True
  then have "create_index ix c = Inr (c\<lparr>indexes := indexes c\<rparr>)"
    using assms(1) by (simp add: create_index_def)
  with True show ?thesis by blast
next
  case False
  have "ix = Ix_template_id_client_id_unique \<longrightarrow> first_duplicate (map identity (docs c)) = None"
    using assms(2) by (simp add: first_duplicate_None)
  then have "create_index ix c = Inr (c\<lparr>indexes := indexes c @ [ix]\<rparr>)"
    using assms(1) False by (simp add: create_index_def)
  then show ?thesis by force
qed

lemma ensure_indexes_ok:
  assumes "outage c = None" "distinct (map identity (docs c))"
  shows "\<exists>ixs. ensure_indexes c = (Inr (), c\<lparr>indexes := ixs\<rparr>) \<and> set all_indexes \<subseteq> set ixs"
proof -
  obtain i1 where i1: "create_index Ix_template_id_client_id_unique c = Inr (c\<lparr>indexes := i1\<rparr>)"
    "Ix_template_id_client_id_unique \<in> set i1"
    using create_index_ok [of c Ix_template_id_client_id_unique] assms by auto
  obtain i2 where i2: "create_index Ix_client_id (c\<lparr>indexes := i1\<rparr>) = Inr (c\<lparr>indexes := i2\<rparr>)"
    "set i1 \<subseteq> set i2" "Ix_client_id \<in> set i2"
    using create_index_ok [of "c\<lparr>indexes := i1\<rparr>" Ix_client_id] assms(1) by auto
  obtain i3 where i3: "create_index Ix_updated_at (c\<lparr>indexes := i2\<rparr>) = Inr (c\<lparr>indexes := i3\<rparr>)"
    "set i2 \<subseteq> set i3" "Ix_updated_at \<in> set i3"
    using create_index_ok [of "c\<lparr>indexes := i2\<rparr>" Ix_updated_at] assms(1) by auto
  have "ensure_indexes c = (Inr (), c\<lparr>indexes := i3\<rparr>)"
    using i1(1) i2(1) i3(1) by (simp add: ensure_indexes_def)
  moreover have "set all_indexes \<subseteq> set i3"
    using i1(2) i2(2,3) i3(2,3) by (auto simp add: all_indexes_def)
  ultimately show ?thesis by blast
qed

text \<open>The text of error 11000 passes the test of the \<open>except\<close> clause.\<close>

lemma lower_append: "lower (xs @ ys) = lower xs @ lower ys"
  by (simp add: lower_def)

lemma E11000_duplicate_key: "sublist ''duplicate key'' (lower (E11000 k))"
proof -
  have "E11000 k = ''E11000 '' @ ''duplicate key'' @
      ('' error collection: iqcapture.templates index: template_id_1_client_id_1 dup key: { template_id: ''
        @ quote @ fst k @ quote @ '', client_id: '' @ quote @ snd k @ quote @ '' }'')"
    by (simp add: E11000_def)
  then have "\<exists>r. lower (E11000 k) = ''e11000 '' @ ''duplicate key'' @ r"
    by (simp add: lower_def lower_char_def)
  then show ?thesis
    by (metis sublist_appendI)
qed

lemma identity_stamp: "identity (t\<lparr>created_at := a, updated_at := b\<rparr>) = identity t"
  by (simp add: identity_def)

lemma identity_extend: "identity (TemplateModel.extend t m) = identity t"
  by (simp add: identity_def TemplateModel.extend_def)

lemma create_template_fresh:
  assumes "outage c = None" "distinct (map identity (docs c))"
    "identity t \<notin> set (map identity (docs c))"
  shows "\<exists>ixs. set all_indexes \<subseteq> set ixs \<and>
     create_template n1 n2 t c =
       (Inr t, c\<lparr>indexes := ixs,
                 docs := docs c @ [TemplateModel.extend (t\<lparr>created_at := n1, updated_at := n2\<rparr>)
                                     \<lparr>oid = next_oid c\<rparr>],
                 next_oid := Suc (next_oid c)\<rparr>)"
proof -
  from ensure_indexes_ok [OF assms(1,2)] obtain ixs
    where ixs: "ensure_indexes c = (Inr (), c\<lparr>indexes := ixs\<rparr>)" "set all_indexes \<subseteq> set ixs"
    by blast
  have "create_template n1 n2 t c =
       (Inr t, c\<lparr>indexes := ixs,
                 docs := docs c @ [TemplateModel.extend (t\<lparr>created_at := n1, updated_at := n2\<rparr>)
                                     \<lparr>oid = next_oid c\<rparr>],
                 next_oid := Suc (next_oid c)\<rparr>)"
    using assms(1,3) ixs(1)
    by (simp add: create_template_def create_template_try_def insert_one_def identity_stamp)
  with ixs(2) show ?thesis by blast
qed

lemma create_template_present:
  assumes "outage c = None"
    "identity t \<in> set (map identity (docs c))" "set all_indexes \<subseteq> set (indexes c)"
  shows "create_template n1 n2 t c = (Inl (already_exists t), c)"
  using assms E11000_duplicate_key [of "identity t"]
  by (simp add: create_template_def create_template_try_def insert_one_def identity_stamp
      ensure_indexes_def create_index_def create_template_except_def all_indexes_def)

text \<open>
  Claim C6. On a reachable collection that keeps \<open>(template_id, client_id)\<close> unique and
  does not hold the pair of \<open>t1\<close>: \<open>create_template\<close> of \<open>t1\<close> succeeds; a
  second \<open>create_template\<close> with the same pair, whatever else the template and the
  clock say, fails with status 409 and leaves the collection as the first left it, with
  exactly one document for the pair.
\<close>

theorem create_template_twice:
  assumes "outage c = None" and "distinct (map identity (docs c))"
    and "identity t1 \<notin> set (map identity (docs c))" and "identity t2 = identity t1"
  shows "\<exists>c1. create_template n1 n2 t1 c = (Inr t1, c1)
           \<and> create_template n3 n4 t2 c1 =
               (Inl (HTTPException 409
                      (''Template '' @ apostrophe @ template_id t1 @ apostrophe
                         @ '' already exists for client '' @ apostrophe @ client_id t1 @ apostrophe)),
                c1)
           \<and> length (filter (\<lambda>d. identity d = identity t1) (docs c1)) = 1"
proof -
  from create_template_fresh [OF assms(1-3), of n1 n2] obtain ixs
    where ixs: "set all_indexes \<subseteq> set ixs"
      and first: "create_template n1 n2 t1 c =
       (Inr t1, c\<lparr>indexes := ixs,
                 docs := docs c @ [TemplateModel.extend (t1\<lparr>created_at := n1, updated_at := n2\<rparr>)
                                     \<lparr>oid = next_oid c\<rparr>],
                 next_oid := Suc (next_oid c)\<rparr>)" (is "_ = (_, ?c1)")
    by blast
  have "create_template n3 n4 t2 ?c1 = (Inl (already_exists t2), ?c1)"
    using assms(1,4) ixs
    by (intro create_template_present) (simp_all add: identity_extend identity_stamp)
  moreover have "already_exists t2 = HTTPException 409
                      (''Template '' @ apostrophe @ template_id t1 @ apostrophe
                         @ '' already exists for client '' @ apostrophe @ client_id t1 @ apostrophe)"
    using assms(4) by (simp add: already_exists_def identity_def)
  moreover have "\<forall>d\<in>set (docs c). identity d \<noteq> identity t1"
    using assms(3) by force
  then have "filter (\<lambda>d. identity d = identity t1) (docs c) = []"
    by (simp add: filter_empty_conv)
  then have "length (filter (\<lambda>d. identity d = identity t1) (docs ?c1)) = 1"
    by (simp add: identity_extend identity_stamp)
  ultimately show ?thesis
    using first by simp
qed

theorem create_template_twice_witness:
  "\<exists>c1. create_template 1000 1001 soap fresh = (Inr soap, c1)
           \<and> create_template 2000 2001 (brief\<lparr>template_id := ''A1''\<rparr>) c1 =
               (Inl (HTTPException 409
                      (''Template '' @ apostrophe @ template_id soap @ apostrophe
                         @ '' already exists for client '' @ apostrophe @ client_id soap @ apostrophe)),
                c1)
           \<and> length (filter (\<lambda>d. identity d = identity soap) (docs c1)) = 1"
proof -
  have a: "outage fresh = None" by (simp add: fresh_def)
  have b: "distinct (map identity (docs fresh))" by (simp add: fresh_def)
  have c: "identity soap \<notin> set (map identity (docs fresh))" by (simp add: fresh_def)
  have d: "identity (brief\<lparr>template_id := ''A1''\<rparr>) = identity soap"
    by (simp add: identity_def brief_def soap_def)
  show ?thesis
    by (rule create_template_twice [OF a b c d])
qed

text \<open>
  Claim C4. The claim says that the record \<open>create_template\<close> returns equals the
  persisted document, stamped timestamps included. Evaluated on the empty collection
  with the clock at 1000 and 1001 and a template that carries \<open>created_at = 100\<close>: the
  document persisted is stamped 1000 and 1001, the record returned is the argument, with
  its own timestamps, and the two differ.
\<close>

theorem create_template_returns_argument:
  "fst (create_template 1000 1001 soap fresh) = Inr soap
   \<and> map doc_to_model (docs (snd (create_template 1000 1001 soap fresh)))
       = [soap\<lparr>created_at := 1000, updated_at := 1001\<rparr>]
   \<and> soap \<noteq> soap\<lparr>created_at := 1000, updated_at := 1001\<rparr>"
  by (simp add: create_template_def create_template_try_def ensure_indexes_def create_index_def
      insert_one_def fresh_def doc_to_model_def TemplateModel.truncate_def
      TemplateModel.extend_def soap_def)

subsection \<open>The \<open>except\<close> clause of \<open>create_template\<close>\<close>

lemma starts_with_ignoring_case_prefix:
  "map lower_char n = n \<Longrightarrow> starts_with_ignoring_case n s = prefix n (map lower_char s)"
  by (induction n s rule: starts_with_ignoring_case.induct) auto

lemma contains_ignoring_case_sublist:
  "map lower_char n = n \<Longrightarrow> contains_ignoring_case n s = sublist n (lower s)"
  by (induction s) (auto simp add: lower_def sublist_Cons_right starts_with_ignoring_case_prefix)

lemma duplicate_key_test:
  "sublist ''duplicate key'' (lower s) = contains_ignoring_case ''duplicate key'' s"
  by (rule contains_ignoring_case_sublist [symmetric]) (simp add: lower_char_def)

text \<open>
  Claim C10. Whenever \<open>create_template\<close> fails, its \<open>try\<close> block raised an exception
  \<open>e\<close>; the failure has status 409 if and only if the text of \<open>e\<close> contains
  \<open>duplicate key\<close>, case ignored, and is then the conflict for the template's pair;
  otherwise it is the 503 that quotes the text of \<open>e\<close>.
\<close>

theorem create_template_classification:
  assumes "fst (create_template n1 n2 t c) = Inl h"
  shows "\<exists>e. fst (create_template_try n1 n2 t c) = Inl e
     \<and> (status_code h = 409 \<longleftrightarrow> contains_ignoring_case ''duplicate key'' (message e))
     \<and> (contains_ignoring_case ''duplicate key'' (message e) \<longrightarrow>
          h = HTTPException 409
                (''Template '' @ apostrophe @ template_id t @ apostrophe
                   @ '' already exists for client '' @ apostrophe @ client_id t @ apostrophe))
     \<and> (\<not> contains_ignoring_case ''duplicate key'' (message e) \<longrightarrow>
          h = HTTPException 503 (''Template service unavailable: '' @ message e))"
proof (cases "create_template_try n1 n2 t c")
  case (Pair r c')
  show ?thesis
  proof (cases r)
    case (Inl e)
    with Pair assms have "h = create_template_except t e"
      by (simp add: create_template_def)
    then show ?thesis
      using Pair Inl
      by (auto simp add: create_template_except_def duplicate_key_test already_exists_def
          unavailable_def)
  next
    case (Inr m)
    with Pair assms show ?thesis
      by (simp add: create_template_def)
  qed
qed
theorem create_template_classification_witness:
  "\<exists>e. fst (create_template_try 1000 1001 soap unreachable) = Inl e
     \<and> (status_code (HTTPException 503 (''Template service unavailable: '' @
            ''localhost:27017: [Errno 111] Connection refused'')) = 409
          \<longleftrightarrow> contains_ignoring_case ''duplicate key'' (message e))
     \<and> (contains_ignoring_case ''duplicate key'' (message e) \<longrightarrow>
          HTTPException 503 (''Template service unavailable: '' @
            ''localhost:27017: [Errno 111] Connection refused'') = HTTPException 409
                (''Template '' @ apostrophe @ template_id soap @ apostrophe
                   @ '' already exists for client '' @ apostrophe @ client_id soap @ apostrophe))
     \<and> (\<not> contains_ignoring_case ''duplicate key'' (message e) \<longrightarrow>
          HTTPException 503 (''Template service unavailable: '' @
            ''localhost:27017: [Errno 111] Connection refused'')
           = HTTPException 503 (''Template service unavailable: '' @ message e))"
proof -
  have a: "fst (create_template 1000 1001 soap unreachable) =
      Inl (HTTPException 503 (''Template service unavailable: '' @
            ''localhost:27017: [Errno 111] Connection refused''))"
    by (simp add: create_template_def create_template_try_def ensure_indexes_def create_index_def
        unreachable_def fresh_def create_template_except_def unavailable_def lower_def
        lower_char_def sublist_code)
  show ?thesis
    by (rule create_template_classification [OF a])
qed

section \<open>Replace\<close>

lemma matches_update_query:
  "matches (update_query tid template) d \<longleftrightarrow> template_id d = tid \<and> client_id d = client_id template"
  by (auto simp add: matches_def update_query_def)

text \<open>
  Claim C7. On a reachable collection with no document for
  \<open>(tid, client_id template)\<close>, \<open>update_template\<close> fails with status 404 and returns
  the collection it was given: nothing is written.
\<close>

theorem update_template_missing:
  assumes "outage c = None"
    and "\<forall>d\<in>set (docs c). \<not> (template_id d = tid \<and> client_id d = client_id template)"
  shows "update_template tid now template c =
           (Inl (HTTPException 404
                  (''Template '' @ apostrophe @ tid @ apostrophe
                     @ '' not found for client '' @ apostrophe @ client_id template @ apostrophe)),
            c)"
proof -
  have "List.find (matches (update_query tid template)) (docs c) = None"
    using assms(2) by (auto simp add: find_None_iff matches_update_query)
  then show ?thesis
    using assms(1)
    by (simp add: update_template_def update_template_try_def find_one_and_update_def
        reraise_def not_found_for_client_def)
qed

text \<open>The client \<open>clinic-7\<close> has no template \<open>B2\<close>.\<close>

theorem update_template_missing_witness:
  "update_template ''B2'' 500 soap_clinic7 clinic_store =
           (Inl (HTTPException 404
                  (''Template '' @ apostrophe @ ''B2'' @ apostrophe
                     @ '' not found for client '' @ apostrophe @ client_id soap_clinic7 @ apostrophe)),
            clinic_store)"
proof -
  have a: "outage clinic_store = None"
    by (simp add: clinic_store_def)
  have b: "\<forall>d\<in>set (docs clinic_store).
             \<not> (template_id d = ''B2'' \<and> client_id d = client_id soap_clinic7)"
    by (simp add: example_defs)
  show ?thesis
    by (rule update_template_missing [OF a b])
qed

lemma find_split:
  "List.find P xs = Some d \<Longrightarrow> \<exists>pre post. xs = pre @ d # post \<and> (\<forall>x\<in>set pre. \<not> P x) \<and> P d"
proof (induction xs)
  case Nil
  then show ?case by simp
next
  case (Cons a xs)
  show ?case
  proof (cases "P a")
    case True
    with Cons.prems have "a = d" by simp
    with True have "a # xs = [] @ d # xs \<and> (\<forall>x\<in>set []. \<not> P x) \<and> P d" by simp
    then show ?thesis by blast
  next
    case False
    with Cons obtain pre post where "xs = pre @ d # post" "\<forall>x\<in>set pre. \<not> P x" "P d"
      by auto
    with False have "a # xs = (a # pre) @ d # post \<and> (\<forall>x\<in>set (a # pre). \<not> P x) \<and> P d"
      by simp
    then show ?thesis by blast
  qed
qed

lemma find_first:
  "(\<forall>x\<in>set pre. \<not> P x) \<Longrightarrow> P d \<Longrightarrow> List.find P (pre @ d # post) = Some d"
  by (induction pre) auto

lemma update_first_split:
  "(\<forall>x\<in>set pre. \<not> P x) \<Longrightarrow> P d \<Longrightarrow> update_first P f (pre @ d # post) = pre @ f d # post"
  by (induction pre) auto

lemma set_update_data_extend:
  "set_update_data (template\<lparr>updated_at := now\<rparr>) d =
     TemplateModel.extend (template\<lparr>created_at := created_at d, updated_at := now\<rparr>) \<lparr>oid = oid d\<rparr>"
  by (simp add: set_update_data_def TemplateModel.extend_def)

lemma doc_to_model_extend: "doc_to_model (TemplateModel.extend t m) = t"
  by (simp add: doc_to_model_def TemplateModel.truncate_def TemplateModel.extend_def)

lemma update_template_found:
  assumes "outage c = None" and "docs c = pre @ d # post"
    and "\<forall>x\<in>set pre. \<not> (template_id x = tid \<and> client_id x = client_id template)"
    and "template_id d = tid" and "client_id d = client_id template"
  shows "update_template tid now template c =
     (if Ix_template_id_client_id_unique \<in> set (indexes c)
         \<and> identity template \<in> set (map identity (remove1 d (docs c)))
      then (Inl (HTTPException 503
                  (''Template service unavailable: '' @ E11000 (identity template))), c)
      else (Inr (template\<lparr>created_at := created_at d, updated_at := now\<rparr>),
            c\<lparr>docs := pre @ TemplateModel.extend
                               (template\<lparr>created_at := created_at d, updated_at := now\<rparr>)
                               \<lparr>oid = oid d\<rparr> # post\<rparr>))"
proof -
  let ?P = "matches (update_query tid template)"
  have pre: "\<forall>x\<in>set pre. \<not> ?P x" and d: "?P d"
    using assms(3-5) by (simp_all add: matches_update_query)
  have f: "List.find ?P (docs c) = Some d"
    using pre d by (simp add: assms(2) find_first)
  have u: "update_first ?P (set_update_data (template\<lparr>updated_at := now\<rparr>)) (docs c)
             = pre @ set_update_data (template\<lparr>updated_at := now\<rparr>) d # post"
    using pre d by (simp add: assms(2) update_first_split)
  have i: "identity (template\<lparr>updated_at := now\<rparr>) = identity template"
    by (simp add: identity_def)
  show ?thesis
    using assms(1) f
    by (simp add: update_template_def update_template_try_def find_one_and_update_def u i
        set_update_data_extend doc_to_model_extend reraise_def unavailable_def Let_def)
qed

text \<open>
  Claim C5, as amended. After a successful \<open>update_template\<close> the document replaced
  is the first one stored under \<open>(tid, client_id template)\<close>; it keeps its
  \<open>created_at\<close> (and its \<open>_id\<close>), its \<open>updated_at\<close> is the clock reading of the
  replace, every other field is the template's, and no other document changes. The
  record returned is the stored document. Whether \<open>updated_at\<close> grows from one replace to
  the next is then a matter of the two clock readings.
\<close>

theorem update_template_frame:
  assumes "update_template tid now template c = (Inr r, c')"
  shows "\<exists>pre d post. docs c = pre @ d # post
      \<and> (\<forall>x\<in>set pre. \<not> (template_id x = tid \<and> client_id x = client_id template))
      \<and> template_id d = tid \<and> client_id d = client_id template
      \<and> r = template\<lparr>created_at := created_at d, updated_at := now\<rparr>
      \<and> c' = c\<lparr>docs := pre @ TemplateModel.extend r \<lparr>oid = oid d\<rparr> # post\<rparr>
      \<and> created_at r = created_at d \<and> updated_at r = now"
proof -
  let ?P = "matches (update_query tid template)"
  have o: "outage c = None"
    using assms
    by (cases "outage c")
      (auto simp add: update_template_def update_template_try_def find_one_and_update_def Let_def)
  have "List.find ?P (docs c) \<noteq> None"
  proof
    assume "List.find ?P (docs c) = None"
    with assms o show False
      by (simp add: update_template_def update_template_try_def find_one_and_update_def Let_def)
  qed
  then obtain d where "List.find ?P (docs c) = Some d" by blast
  from find_split [OF this] obtain pre post
    where s: "docs c = pre @ d # post" "\<forall>x\<in>set pre. \<not> ?P x" "?P d"
    by blast
  then have m: "\<forall>x\<in>set pre. \<not> (template_id x = tid \<and> client_id x = client_id template)"
      "template_id d = tid" "client_id d = client_id template"
    by (simp_all add: matches_update_query)
  from update_template_found [OF o s(1) m, of now] assms
  have "r = template\<lparr>created_at := created_at d, updated_at := now\<rparr>
      \<and> c' = c\<lparr>docs := pre @ TemplateModel.extend r \<lparr>oid = oid d\<rparr> # post\<rparr>"
    by (auto split: if_splits)
  with s(1) m show ?thesis by auto
qed

theorem update_template_frame_witness:
  "\<exists>pre d post. docs clinic_store = pre @ d # post
      \<and> (\<forall>x\<in>set pre. \<not> (template_id x = ''A1'' \<and> client_id x = client_id soap_v2))
      \<and> template_id d = ''A1'' \<and> client_id d = client_id soap_v2
      \<and> soap_v2\<lparr>created_at := 100, updated_at := 500\<rparr>
          = soap_v2\<lparr>created_at := created_at d, updated_at := 500\<rparr>
      \<and> clinic_store\<lparr>docs := [stored 0 (soap_v2\<lparr>created_at := 100, updated_at := 500\<rparr>),
                               stored 1 brief, stored 2 soap_clinic7]\<rparr>
          = clinic_store\<lparr>docs := pre @ TemplateModel.extend
                  (soap_v2\<lparr>created_at := 100, updated_at := 500\<rparr>) \<lparr>oid = oid d\<rparr> # post\<rparr>
      \<and> created_at (soap_v2\<lparr>created_at := 100, updated_at := 500\<rparr>) = created_at d
      \<and> updated_at (soap_v2\<lparr>created_at := 100, updated_at := 500\<rparr>) = 500"
proof -
  have h: "update_template ''A1'' 500 soap_v2 clinic_store =
      (Inr (soap_v2\<lparr>created_at := 100, updated_at := 500\<rparr>),
       clinic_store\<lparr>docs := [stored 0 (soap_v2\<lparr>created_at := 100, updated_at := 500\<rparr>),
                               stored 1 brief, stored 2 soap_clinic7]\<rparr>)"
    by (simp add: update_template_eval example_defs soap_v2_def)
  show ?thesis
    by (rule update_template_frame [OF h])
qed

text \<open>
  The claim as stated fails: with the clock reading 2000 at one replace and 1500 at the
  next (a wall clock set back between them), both replaces succeed and \<open>updated_at\<close>
  goes from 2000 to 1500.
\<close>

theorem update_template_clock_counterexample:
  "fst (update_template ''A1'' 2000 soap clinic_store) = Inr (soap\<lparr>updated_at := 2000\<rparr>)
   \<and> fst (update_template ''A1'' 1500 soap (snd (update_template ''A1'' 2000 soap clinic_store)))
       = Inr (soap\<lparr>updated_at := 1500\<rparr>)
   \<and> \<not> updated_at (soap\<lparr>updated_at := 2000\<rparr>) < updated_at (soap\<lparr>updated_at := 1500\<rparr>)"
  by (simp add: update_template_eval example_defs)

text \<open>
  Claim C9, as amended. When the body's \<open>template_id\<close> differs from the path's,
  \<open>update_template\<close> addresses the first document stored under
  \<open>(tid, client_id template)\<close>. If the unique index exists and already holds the
  body's pair, the replace fails with status 503 and writes nothing; otherwise it
  succeeds and the document is stored under the body's \<open>template_id\<close>.
\<close>

theorem update_template_rekey:
  assumes "outage c = None" and "template_id template \<noteq> tid"
    and "docs c = pre @ d # post"
    and "\<forall>x\<in>set pre. \<not> (template_id x = tid \<and> client_id x = client_id template)"
    and "template_id d = tid" and "client_id d = client_id template"
  shows "update_template tid now template c =
     (if Ix_template_id_client_id_unique \<in> set (indexes c)
         \<and> identity template \<in> set (map identity (docs c))
      then (Inl (HTTPException 503
                  (''Template service unavailable: '' @ E11000 (identity template))), c)
      else (Inr (template\<lparr>created_at := created_at d, updated_at := now\<rparr>),
            c\<lparr>docs := pre @ TemplateModel.extend
                               (template\<lparr>created_at := created_at d, updated_at := now\<rparr>)
                               \<lparr>oid = oid d\<rparr> # post\<rparr>))"
proof -
  have ne: "identity d \<noteq> identity template"
    using assms(2,5) by (auto simp add: identity_def)
  have "identity template \<in> identity ` set (remove1 d (docs c))
         \<longleftrightarrow> identity template \<in> identity ` set (docs c)"
  proof
    assume "identity template \<in> identity ` set (remove1 d (docs c))"
    then show "identity template \<in> identity ` set (docs c)"
      using set_remove1_subset [of d "docs c"] by blast
  next
    assume "identity template \<in> identity ` set (docs c)"
    then obtain x where x: "x \<in> set (docs c)" "identity x = identity template"
      by force
    with ne have "x \<noteq> d" by auto
    with x(1) have "x \<in> set (remove1 d (docs c))" by simp
    with x(2) show "identity template \<in> identity ` set (remove1 d (docs c))"
      by force
  qed
  with update_template_found [OF assms(1,3,4,5,6), of now] show ?thesis
    by simp
qed

theorem update_template_rekey_witness:
  "update_template ''A1'' 500 (soap\<lparr>template_id := ''C3''\<rparr>) clinic_store =
     (Inr (soap\<lparr>template_id := ''C3'', updated_at := 500\<rparr>),
      clinic_store\<lparr>docs := [stored 0 (soap\<lparr>template_id := ''C3'', updated_at := 500\<rparr>),
                              stored 1 brief, stored 2 soap_clinic7]\<rparr>)"
proof -
  have a: "outage clinic_store = None"
    by (simp add: clinic_store_def)
  have b: "template_id (soap\<lparr>template_id := ''C3''\<rparr>) \<noteq> ''A1''"
    by simp
  have c: "docs clinic_store = [] @ stored 0 soap # [stored 1 brief, stored 2 soap_clinic7]"
    by (simp add: clinic_store_def)
  have d: "\<forall>x\<in>set []. \<not> (template_id x = ''A1''
             \<and> client_id x = client_id (soap\<lparr>template_id := ''C3''\<rparr>))"
    by simp
  have e: "template_id (stored 0 soap) = ''A1''"
    "client_id (stored 0 soap) = client_id (soap\<lparr>template_id := ''C3''\<rparr>)"
    by (simp_all add: example_defs)
  show ?thesis
    using update_template_rekey [OF a b c d e, of 500]
    by (simp add: identity_def) (simp add: example_defs)
qed

text \<open>
  The claim as stated fails: the document \<open>(A1, default)\<close> is found, the body says
  \<open>B2\<close>, a document \<open>(B2, default)\<close> exists under the unique index; the stored
  \<open>template_id\<close> is not overwritten and the caller gets 503.
\<close>

theorem update_template_rekey_counterexample:
  "List.find (matches (update_query ''A1'' (soap\<lparr>template_id := ''B2''\<rparr>))) (docs clinic_store)
     = Some (stored 0 soap)
   \<and> update_template ''A1'' 500 (soap\<lparr>template_id := ''B2''\<rparr>) clinic_store =
       (Inl (HTTPException 503
              (''Template service unavailable: '' @ E11000 (''B2'', ''default''))),
        clinic_store)
   \<and> map template_id (docs clinic_store) = [''A1'', ''B2'', ''A1'']"
  by (simp add: update_template_eval example_defs)

section \<open>List resolution\<close>

lemma map_of_setitem:
  "map_of (setitem m d) k = (if template_id d = k then Some d else map_of m k)"
  by (simp add: setitem_def update_conv')

lemma map_of_merge:
  "map_of (foldl setitem m ds) k =
     (case List.find (\<lambda>d. template_id d = k) (rev ds) of Some d \<Rightarrow> Some d | None \<Rightarrow> map_of m k)"
  by (induction ds rule: rev_induct) (simp_all add: map_of_setitem)

lemma distinct_merge:
  "distinct (map fst m) \<Longrightarrow> distinct (map fst (foldl setitem m ds))"
  by (induction ds rule: rev_induct) (simp_all add: setitem_def distinct_update)

lemma keys_merge:
  "fst ` set (foldl setitem m ds) = fst ` set m \<union> template_id ` set ds"
  by (induction ds rule: rev_induct) (auto simp add: setitem_def dom_update)

lemma set_update_subset: "set (AList.update k v al) \<subseteq> insert (k, v) (set al)"
  by (induction al) auto

lemma set_setitem_subset: "set (setitem m d) \<subseteq> insert (template_id d, d) (set m)"
  by (simp add: setitem_def set_update_subset)

lemma keyed_merge: "keyed m \<Longrightarrow> keyed (foldl setitem m ds)"
proof (induction ds rule: rev_induct)
  case Nil
  then show ?case by simp
next
  case (snoc d ds)
  then have "keyed (foldl setitem m ds)" by simp
  then show ?case
    using set_setitem_subset [of "foldl setitem m ds" d]
    by (auto simp add: keyed_def)
qed

lemma same_keys_merge:
  "\<forall>d\<in>set ds. template_id d \<in> fst ` set m \<Longrightarrow> map fst (foldl setitem m ds) = map fst m"
  by (induction ds rule: rev_induct) (simp_all add: setitem_def update_keys)

lemma alist_eqI:
  assumes "map fst xs = map fst ys" "distinct (map fst xs)" "map_of xs = map_of ys"
  shows "xs = ys"
proof -
  have x: "zip (map fst xs) (map snd xs) = xs"
    by (rule zip_map_fst_snd)
  have "zip (map fst ys) (map snd ys) = ys"
    by (rule zip_map_fst_snd)
  then have y: "zip (map fst xs) (map snd ys) = ys"
    by (simp only: assms(1))
  have e: "map_of (zip (map fst xs) (map snd xs)) = map_of (zip (map fst xs) (map snd ys))"
    by (simp only: x y assms(3))
  have l1: "length (map snd xs) = length (map fst xs)"
    by simp
  have "length (map fst xs) = length (map fst ys)"
    by (simp only: assms(1))
  then have l2: "length (map snd ys) = length (map fst xs)"
    by simp
  have "map snd xs = map snd ys"
    by (rule map_of_zip_inject [OF l1 l2 assms(2) e])
  then have "zip (map fst xs) (map snd xs) = zip (map fst xs) (map snd ys)"
    by (rule arg_cong)
  then show ?thesis
    by (simp only: x y)
qed

lemma merge_again: "foldl setitem (foldl setitem [] ds) ds = foldl setitem [] ds"
proof (rule alist_eqI)
  show "map fst (foldl setitem (foldl setitem [] ds) ds) = map fst (foldl setitem [] ds)"
    by (rule same_keys_merge) (simp add: keys_merge)
  show "distinct (map fst (foldl setitem (foldl setitem [] ds) ds))"
    by (simp add: distinct_merge)
  show "map_of (foldl setitem (foldl setitem [] ds) ds) = map_of (foldl setitem [] ds)"
    by (rule ext) (simp add: map_of_merge split: option.splits)
qed

lemma update_fresh: "k \<notin> fst ` set al \<Longrightarrow> AList.update k v al = al @ [(k, v)]"
  by (induction al) auto

lemma merge_distinct_ids:
  "distinct (map template_id ds) \<Longrightarrow> foldl setitem [] ds = map (\<lambda>d. (template_id d, d)) ds"
proof (induction ds rule: rev_induct)
  case Nil
  then show ?case by simp
next
  case (snoc d ds)
  then have "template_id d \<notin> fst ` set (map (\<lambda>d. (template_id d, d)) ds)"
    by (auto simp add: image_iff)
  with snoc show ?case
    by (simp add: setitem_def update_fresh)
qed

lemma matches_default_query:
  "matches default_query d \<longleftrightarrow> client_id d = ''default'' \<and> is_active d"
  by (auto simp add: matches_def default_query_def)

lemma matches_client_query:
  "matches (client_query cid) d \<longleftrightarrow> client_id d = cid \<and> is_active d"
  by (auto simp add: matches_def client_query_def)

lemma client_query_default: "client_query ''default'' = default_query"
  by (simp add: client_query_def default_query_def)

lemma filter_default_query:
  "filter (matches default_query) ds = filter (\<lambda>d. client_id d = ''default'' \<and> is_active d) ds"
  by (rule filter_cong) (simp_all add: matches_default_query)

lemma filter_client_query:
  "filter (matches (client_query cid)) ds = filter (\<lambda>d. client_id d = cid \<and> is_active d) ds"
  by (rule filter_cong) (simp_all add: matches_client_query)

lemma distinct_ids_of_client:
  assumes "distinct (map identity ds)"
  shows "distinct (map template_id (filter (\<lambda>d. client_id d = cid \<and> P d) ds))"
proof -
  have "distinct (map identity (filter (\<lambda>d. client_id d = cid \<and> P d) ds))"
    using assms by (rule distinct_map_filter)
  then show ?thesis
    by (auto simp add: distinct_map inj_on_def identity_def)
qed

text \<open>
  Claim C8. For every collection, reachable or not, \<open>list_templates\<close> for the client
  \<open>default\<close> returns what the defaults-only computation returns, and what the
  computation that performs the merge for \<open>default\<close> too returns. On a reachable
  collection that keeps \<open>(template_id, client_id)\<close> unique, that result is the active
  default documents sorted by name.
\<close>

theorem list_templates_default_client:
  "list_templates now ''default'' c = list_templates_defaults_only now c
   \<and> list_templates_merging now ''default'' c = list_templates now ''default'' c
   \<and> (outage c = None \<and> distinct (map identity (docs c)) \<longrightarrow>
        list_templates now ''default'' c =
          Inr \<lparr>templates = sort_key name (map doc_to_model
                   (filter (\<lambda>d. client_id d = ''default'' \<and> is_active d) (docs c))),
               sync_timestamp = now\<rparr>)"
proof (intro conjI impI)
  show "list_templates now ''default'' c = list_templates_defaults_only now c"
    by (simp add: list_templates_def list_templates_try_def list_templates_defaults_only_def
        split: sum.splits)
  show "list_templates_merging now ''default'' c = list_templates now ''default'' c"
    by (simp add: list_templates_def list_templates_try_def list_templates_merging_def
        client_query_default merge_again split: sum.splits)
  assume "outage c = None \<and> distinct (map identity (docs c))"
  then show "list_templates now ''default'' c =
          Inr \<lparr>templates = sort_key name (map doc_to_model
                   (filter (\<lambda>d. client_id d = ''default'' \<and> is_active d) (docs c))),
               sync_timestamp = now\<rparr>"
    using distinct_ids_of_client [of "docs c" "''default''" is_active]
    by (simp add: list_templates_def list_templates_try_def find_docs_def resolved_def
        filter_default_query merge_distinct_ids comp_def)
qed

text \<open>The example collection: the two active defaults, \<open>Brief\<close> before \<open>SOAP\<close>.\<close>

theorem list_templates_default_client_witness:
  "list_templates 5 ''default'' clinic_store = list_templates_defaults_only 5 clinic_store
   \<and> list_templates_merging 5 ''default'' clinic_store = list_templates 5 ''default'' clinic_store
   \<and> list_templates 5 ''default'' clinic_store
       = Inr \<lparr>templates = [brief, soap], sync_timestamp = 5\<rparr>"
proof -
  have a: "outage clinic_store = None \<and> distinct (map identity (docs clinic_store))"
    by (simp add: identity_def example_defs)
  have b: "sort_key name (map doc_to_model
             (filter (\<lambda>d. client_id d = ''default'' \<and> is_active d) (docs clinic_store)))
           = [brief, soap]"
    by (simp add: clinic_store_def doc_to_model_stored)
       (simp add: example_defs doc_to_model_def TemplateModel.truncate_def)
  note t = list_templates_default_client [of 5 clinic_store]
  from t a have "list_templates 5 ''default'' clinic_store =
      Inr \<lparr>templates = sort_key name (map doc_to_model
               (filter (\<lambda>d. client_id d = ''default'' \<and> is_active d) (docs clinic_store))),
           sync_timestamp = 5\<rparr>"
    by blast
  then have "list_templates 5 ''default'' clinic_store
       = Inr \<lparr>templates = [brief, soap], sync_timestamp = 5\<rparr>"
    by (simp only: b)
  with t show ?thesis
    by blast
qed

subsection \<open>The merged dictionary\<close>

lemma find_SomeD: "List.find P xs = Some x \<Longrightarrow> x \<in> set xs \<and> P x"
  by (induction xs) (auto split: if_splits)

lemma keyed_Nil: "keyed []"
  by (simp add: keyed_def)

lemma merged_entry:
  assumes "(k, d) \<in> set (foldl setitem (foldl setitem [] ds) os)"
  shows "template_id d = k
       \<and> (if \<exists>x\<in>set os. template_id x = k then d \<in> set os else d \<in> set ds)"
proof -
  let ?M = "foldl setitem (foldl setitem [] ds) os"
  have "keyed ?M"
    by (intro keyed_merge keyed_Nil)
  with assms have k: "template_id d = k"
    by (auto simp add: keyed_def)
  have "distinct (map fst ?M)"
    by (intro distinct_merge) simp
  with assms have m: "map_of ?M k = Some d"
    by simp
  show ?thesis
  proof (cases "List.find (\<lambda>x. template_id x = k) (rev os)")
    case None
    then have no: "\<not> (\<exists>x\<in>set os. template_id x = k)"
      by (auto simp add: find_None_iff)
    from m None have "map_of (foldl setitem [] ds) k = Some d"
      by (simp add: map_of_merge)
    then have "List.find (\<lambda>x. template_id x = k) (rev ds) = Some d"
      by (simp add: map_of_merge split: option.splits)
    then have "d \<in> set ds"
      by (auto dest: find_SomeD)
    with k no show ?thesis by simp
  next
    case (Some x)
    with m have "x = d"
      by (simp add: map_of_merge)
    with Some have "d \<in> set os" "template_id d = k"
      by (auto dest: find_SomeD)
    then show ?thesis by auto
  qed
qed

lemma keyed_ids: "keyed m \<Longrightarrow> map template_id (map doc_to_model (map snd m)) = map fst m"
  by (auto simp add: keyed_def doc_to_model_fields)

lemma resolved_sorted: "sorted (map name (resolved m))"
  by (simp add: resolved_def)

lemma set_resolved: "set (resolved m) = doc_to_model ` snd ` set m"
  by (simp add: resolved_def image_image)

lemma distinct_map_sort_key: "distinct (map f (sort_key k xs)) = distinct (map f xs)"
  by (simp only: distinct_map distinct_sort set_sort)

lemma resolved_ids:
  assumes "keyed m" "distinct (map fst m)"
  shows "distinct (map template_id (resolved m))"
    and "set (map template_id (resolved m)) = fst ` set m"
proof -
  have "distinct (map template_id (map doc_to_model (map snd m)))"
    using assms by (simp only: keyed_ids)
  then show "distinct (map template_id (resolved m))"
    by (simp only: resolved_def distinct_map_sort_key)
  have "set (map template_id (resolved m)) = set (map template_id (map doc_to_model (map snd m)))"
    by (simp only: resolved_def set_map set_sort)
  also have "\<dots> = fst ` set m"
    using assms(1) by (simp only: keyed_ids set_map)
  finally show "set (map template_id (resolved m)) = fst ` set m" .
qed

lemma list_templates_merged:
  assumes "outage c = None"
  shows "list_templates now cid c =
     Inr \<lparr>templates = resolved (foldl setitem
               (foldl setitem [] (filter (\<lambda>d. client_id d = ''default'' \<and> is_active d) (docs c)))
               (if cid \<noteq> ''default''
                then filter (\<lambda>d. client_id d = cid \<and> is_active d) (docs c) else [])),
          sync_timestamp = now\<rparr>"
  using assms
  by (simp add: list_templates_def list_templates_try_def find_docs_def filter_default_query
      filter_client_query)

text \<open>
  Claim C2. On a reachable collection, for every client, \<open>list_templates\<close> succeeds;
  the templates it returns are sorted by name, no two of them share a \<open>template_id\<close>,
  their \<open>template_id\<close>s are exactly those of the active documents of the default layer
  and of the client, and each of them is an active document of the client when the
  client has an active document for that \<open>template_id\<close>, and an active default
  otherwise.
\<close>

theorem list_templates_resolution:
  assumes "outage c = None"
  shows "\<exists>ts. list_templates now cid c = Inr \<lparr>templates = ts, sync_timestamp = now\<rparr>
     \<and> sorted (map name ts)
     \<and> distinct (map template_id ts)
     \<and> set (map template_id ts) =
         template_id ` {d \<in> set (docs c). is_active d \<and> (client_id d = ''default'' \<or> client_id d = cid)}
     \<and> (\<forall>t\<in>set ts.
          if \<exists>d\<in>set (docs c). is_active d \<and> client_id d = cid \<and> template_id d = template_id t
          then \<exists>d\<in>set (docs c). is_active d \<and> client_id d = cid \<and> t = doc_to_model d
          else \<exists>d\<in>set (docs c). is_active d \<and> client_id d = ''default'' \<and> t = doc_to_model d)"
proof -
  let ?D = "filter (\<lambda>d. client_id d = ''default'' \<and> is_active d) (docs c)"
  let ?O = "if cid \<noteq> ''default''
            then filter (\<lambda>d. client_id d = cid \<and> is_active d) (docs c) else []"
  let ?M = "foldl setitem (foldl setitem [] ?D) ?O"
  let ?ts = "resolved ?M"
  have r: "list_templates now cid c = Inr \<lparr>templates = ?ts, sync_timestamp = now\<rparr>"
    using assms by (rule list_templates_merged)
  have k: "keyed ?M"
    by (intro keyed_merge keyed_Nil)
  have d: "distinct (map fst ?M)"
    by (intro distinct_merge) simp
  have s: "sorted (map name ?ts)"
    by (rule resolved_sorted)
  have u: "distinct (map template_id ?ts)"
    using k d by (rule resolved_ids(1))
  have "set (map template_id ?ts) = fst ` set ?M"
    using k d by (rule resolved_ids(2))
  also have "\<dots> = template_id ` set ?D \<union> template_id ` set ?O"
    by (simp only: keys_merge) simp
  also have "\<dots> =
      template_id ` {d \<in> set (docs c). is_active d \<and> (client_id d = ''default'' \<or> client_id d = cid)}"
    by auto
  finally have i: "set (map template_id ?ts) =
      template_id ` {d \<in> set (docs c). is_active d \<and> (client_id d = ''default'' \<or> client_id d = cid)}" .
  have e: "\<forall>t\<in>set ?ts.
          if \<exists>d\<in>set (docs c). is_active d \<and> client_id d = cid \<and> template_id d = template_id t
          then \<exists>d\<in>set (docs c). is_active d \<and> client_id d = cid \<and> t = doc_to_model d
          else \<exists>d\<in>set (docs c). is_active d \<and> client_id d = ''default'' \<and> t = doc_to_model d"
  proof
    fix t assume "t \<in> set ?ts"
    then obtain k d where kd: "(k, d) \<in> set ?M" "t = doc_to_model d"
      by (auto simp add: set_resolved)
    from merged_entry [OF kd(1)]
    have m: "template_id d = k"
      "if \<exists>x\<in>set ?O. template_id x = k then d \<in> set ?O else d \<in> set ?D"
      by blast+
    have tk: "template_id t = k"
      using kd(2) m(1) by (simp add: doc_to_model_fields)
    show "if \<exists>d\<in>set (docs c). is_active d \<and> client_id d = cid \<and> template_id d = template_id t
          then \<exists>d\<in>set (docs c). is_active d \<and> client_id d = cid \<and> t = doc_to_model d
          else \<exists>d\<in>set (docs c). is_active d \<and> client_id d = ''default'' \<and> t = doc_to_model d"
    proof (cases "cid = ''default''")
      case True
      with m(2) have "d \<in> set ?D" by simp
      with kd(2) True show ?thesis by auto
    next
      case False
      let ?C = "filter (\<lambda>d. client_id d = cid \<and> is_active d) (docs c)"
      have m2: "if \<exists>x\<in>set ?C. template_id x = k then d \<in> set ?C else d \<in> set ?D"
        using m(2) False by (simp only: not_False_eq_True if_True)
      show ?thesis
      proof (cases "\<exists>x\<in>set ?C. template_id x = k")
        case True
        with m2 have "d \<in> set ?C" by (simp only: if_True)
        with kd(2)
        have "\<exists>d\<in>set (docs c). is_active d \<and> client_id d = cid \<and> t = doc_to_model d"
          by auto
        moreover from True tk
        have "\<exists>d\<in>set (docs c). is_active d \<and> client_id d = cid \<and> template_id d = template_id t"
          by auto
        ultimately show ?thesis by (simp only: if_True)
      next
        case no: False
        with m2 have "d \<in> set ?D" by (simp only: if_False)
        with kd(2)
        have "\<exists>d\<in>set (docs c). is_active d \<and> client_id d = ''default'' \<and> t = doc_to_model d"
          by auto
        moreover from no tk
        have "\<not> (\<exists>d\<in>set (docs c). is_active d \<and> client_id d = cid
                  \<and> template_id d = template_id t)"
          by auto
        ultimately show ?thesis by (simp only: if_False)
      qed
    qed
  qed
  from r s u i e show ?thesis
    by blast
qed

theorem list_templates_resolution_witness:
  "\<exists>ts. list_templates 5 ''clinic-7'' clinic_store = Inr \<lparr>templates = ts, sync_timestamp = 5\<rparr>
     \<and> sorted (map name ts)
     \<and> distinct (map template_id ts)
     \<and> set (map template_id ts) =
         template_id ` {d \<in> set (docs clinic_store).
            is_active d \<and> (client_id d = ''default'' \<or> client_id d = ''clinic-7'')}
     \<and> (\<forall>t\<in>set ts.
          if \<exists>d\<in>set (docs clinic_store).
               is_active d \<and> client_id d = ''clinic-7'' \<and> template_id d = template_id t
          then \<exists>d\<in>set (docs clinic_store).
               is_active d \<and> client_id d = ''clinic-7'' \<and> t = doc_to_model d
          else \<exists>d\<in>set (docs clinic_store).
               is_active d \<and> client_id d = ''default'' \<and> t = doc_to_model d)"
proof -
  have a: "outage clinic_store = None"
    by (simp add: clinic_store_def)
  show ?thesis
    by (rule list_templates_resolution [OF a])
qed

text \<open>In the example the override of \<open>A1\<close> replaces the default, after \<open>Brief\<close>.\<close>

lemma list_templates_clinic7:
  "list_templates 5 ''clinic-7'' clinic_store
     = Inr \<lparr>templates = [brief, soap_clinic7], sync_timestamp = 5\<rparr>"
proof -
  have a: "outage clinic_store = None"
    by (simp add: clinic_store_def)
  show ?thesis
    by (simp add: list_templates_merged [OF a])
       (simp add: resolved_def setitem_def example_defs doc_to_model_def
          TemplateModel.truncate_def)
qed

section \<open>The store keeps its keys unique\<close>

text \<open>
  The theorems on resolution and on insert suppose that no two stored documents share
  \<open>(template_id, client_id)\<close>. \<open>create_template\<close> keeps that true, whatever it
  returns; \<open>update_template\<close> keeps it true once the unique index exists.
\<close>

lemma create_template_outage:
  "outage c = Some m \<Longrightarrow> snd (create_template n1 n2 t c) = c"
  by (simp add: create_template_def create_template_try_def ensure_indexes_def create_index_def)

lemma create_template_keeps_unique:
  assumes "distinct (map identity (docs c))"
  shows "distinct (map identity (docs (snd (create_template n1 n2 t c))))"
proof (cases "outage c")
  case (Some m)
  with assms show ?thesis by (simp add: create_template_outage)
next
  case None
  show ?thesis
  proof (cases "identity t \<in> set (map identity (docs c))")
    case False
    from create_template_fresh [OF None assms False, of n1 n2] assms False
    show ?thesis
      by (auto simp add: identity_extend identity_stamp)
  next
    case True
    from ensure_indexes_ok [OF None assms] obtain ixs
      where "ensure_indexes c = (Inr (), c\<lparr>indexes := ixs\<rparr>)" "set all_indexes \<subseteq> set ixs"
      by blast
    with None True have "snd (create_template n1 n2 t c) = c\<lparr>indexes := ixs\<rparr>"
      by (auto simp add: create_template_def create_template_try_def insert_one_def
          identity_stamp all_indexes_def)
    with assms show ?thesis by simp
  qed
qed

lemma update_template_keeps_unique:
  assumes "distinct (map identity (docs c))"
    and "Ix_template_id_client_id_unique \<in> set (indexes c)"
  shows "distinct (map identity (docs (snd (update_template tid now t c))))"
proof (cases "outage c")
  case (Some m)
  with assms show ?thesis
    by (simp add: update_template_def update_template_try_def find_one_and_update_def Let_def)
next
  case None
  show ?thesis
  proof (cases "List.find (matches (update_query tid t)) (docs c)")
    case no: None
    with None assms show ?thesis
      by (simp add: update_template_def update_template_try_def find_one_and_update_def Let_def)
  next
    case (Some d)
    from find_split [OF Some] obtain pre post
      where s: "docs c = pre @ d # post" "\<forall>x\<in>set pre. \<not> matches (update_query tid t) x"
        "matches (update_query tid t) d"
      by blast
    then have m: "\<forall>x\<in>set pre. \<not> (template_id x = tid \<and> client_id x = client_id t)"
      "template_id d = tid" "client_id d = client_id t"
      by (simp_all add: matches_update_query)
    have "d \<notin> set pre"
      using s(2,3) by blast
    then have r: "remove1 d (docs c) = pre @ post"
      by (simp add: s(1) remove1_append)
    let ?d' = "TemplateModel.extend (t\<lparr>created_at := created_at d, updated_at := now\<rparr>)
                 \<lparr>oid = oid d\<rparr>"
    have i: "identity ?d' = identity t"
      by (simp add: identity_extend identity_stamp)
    note f = update_template_found [OF None s(1) m, of now]
    show ?thesis
    proof (cases "identity t \<in> set (map identity (remove1 d (docs c)))")
      case True
      with f assms(2) have "snd (update_template tid now t c) = c"
        by simp
      with assms(1) show ?thesis by simp
    next
      case False
      with f have "docs (snd (update_template tid now t c)) = pre @ ?d' # post"
        by simp
      moreover from False have "identity ?d' \<notin> identity ` (set pre \<union> set post)"
        by (simp add: r i image_Un)
      moreover from assms(1) have "distinct (map identity (pre @ post))"
        by (simp add: s(1))
      ultimately show ?thesis
        by auto
    qed
  qed
qed

end
